theory Spec2Isabelle
  imports Main
begin

section \<open>Python values, exceptions and control flow\<close>

text \<open>
  A tensor is known to \<^verbatim>\<open>dolphin_vision_node.py\<close> through its \<^verbatim>\<open>shape\<close> and through
  iteration over its first axis; its contents only travel on to the libraries. It is
  kept as a shape and the row-major list of its entries.
\<close>

datatype tensor = Tensor (shape: "nat list") (entries: "nat list")

datatype pyval = PyNone | PyBool bool | PyInt int | PyStr string | PyTensor tensor

text \<open>
  An exception is an instance of a subclass of \<^verbatim>\<open>Exception\<close>: its class, as far as an
  \<^verbatim>\<open>except\<close> clause of the source tells classes apart, and its \<^verbatim>\<open>str()\<close>.
\<close>

datatype exn_class =
  PreTrainedModelNotFoundError | OSError | ValueError | IndexError | TypeError
  | AttributeError | RuntimeError

datatype exn = Exn (exn_class: exn_class) (str_of: string)

text \<open>
  What a block of statements does: it falls through with a value, executes a
  \<^verbatim>\<open>return (msg,)\<close>, or raises.
\<close>

datatype 'a flow = Next 'a | Return string | Raise exn

section \<open>Collaborators\<close>

datatype model_ref = ModelRef nat
datatype tokenizer_ref = TokenizerRef nat
datatype pil_image = PILImage nat
datatype image_tensor = ImageTensor nat

text \<open>
  The libraries and the quantization backend, as they answer during one call of the
  node. Every one of them may raise. \<open>to_pil_image env img\<close> is
  \<^verbatim>\<open>ToPILImage()(img.permute(2, 0, 1))\<close>; \<open>process_images env m imgs\<close> is
  \<^verbatim>\<open>self.model.process_images(imgs, self.model.config).to(dtype=self.model.dtype)\<close>;
  \<open>generate env m ids img\<close> is element 0 of \<^verbatim>\<open>self.model.generate(...)\<close>.
  \<^verbatim>\<open>quantize_model\<close> and \<^verbatim>\<open>unload_model\<close> are the functions the node imports from
  \<^verbatim>\<open>utils/quantization_utils\<close>; like the libraries, they are parameters here.
\<close>

record env =
  model_from_pretrained :: "string \<Rightarrow> exn + model_ref option"
  quantize_model :: "string \<Rightarrow> string \<Rightarrow> pyval \<Rightarrow> int option \<Rightarrow> exn + model_ref option"
  tokenizer_from_pretrained :: "string \<Rightarrow> exn + tokenizer_ref"
  model_eval :: "model_ref \<Rightarrow> exn option"
  to_pil_image :: "tensor \<Rightarrow> exn + pil_image"
  apply_chat_template :: "tokenizer_ref \<Rightarrow> string \<Rightarrow> exn + string"
  tokenize :: "tokenizer_ref \<Rightarrow> string \<Rightarrow> exn + int list"
  process_images :: "model_ref \<Rightarrow> pil_image list \<Rightarrow> exn + image_tensor"
  input_ids_to :: "string \<Rightarrow> exn option"
  image_tensor_to :: "string \<Rightarrow> exn option"
  generate :: "model_ref \<Rightarrow> int list list \<Rightarrow> image_tensor \<Rightarrow> exn + int list"
  decode :: "tokenizer_ref \<Rightarrow> int list \<Rightarrow> exn + string"
  unload_model :: "model_ref \<Rightarrow> exn option"

text \<open>The calls made to the collaborators, in the order they are made.\<close>

datatype call =
  CallModelFromPretrained string
  | CallQuantizeModel string string pyval "int option"
  | CallTokenizerFromPretrained string
  | CallEval model_ref
  | CallToPILImage tensor
  | CallApplyChatTemplate tokenizer_ref string
  | CallTokenize tokenizer_ref string
  | CallProcessImages model_ref "pil_image list"
  | CallInputIdsTo string
  | CallImageTensorTo string
  | CallGenerate model_ref "int list list" image_tensor
  | CallDecode tokenizer_ref "int list"
  | CallUnloadModel model_ref

section \<open>The node\<close>

text \<open>
  The attributes of a \<^verbatim>\<open>DolphinVisionNode\<close>. \<open>cache_attr\<close> is the instance attribute
  \<^verbatim>\<open>cache\<close> that line 213 reads: \<open>None\<close> when the object has no such attribute, which is
  how \<^verbatim>\<open>__init__\<close> leaves it; no method of the class assigns it.
\<close>

record node =
  model_name :: string
  device :: string
  model :: "model_ref option"
  tokenizer :: "tokenizer_ref option"
  quantized :: bool
  cache_attr :: "pyval option"

definition init :: "bool \<Rightarrow> node" where
  "init cuda_is_available =
     \<lparr>model_name = ''cognitivecomputations/dolphin-vision-7b'',
      device = (if cuda_is_available then ''cuda'' else ''cpu''),
      model = None, tokenizer = None, quantized = False, cache_attr = None\<rparr>"

subsection \<open>Python built-ins\<close>

text \<open>
  \<^verbatim>\<open>bool(v)\<close>. A tensor with one entry is true when the entry is not zero; with none or
  with several entries the conversion raises.
\<close>

fun truthy :: "pyval \<Rightarrow> exn + bool" where
  "truthy PyNone = Inr False"
| "truthy (PyBool b) = Inr b"
| "truthy (PyInt i) = Inr (i \<noteq> 0)"
| "truthy (PyStr s) = Inr (s \<noteq> [])"
| "truthy (PyTensor t) =
     (case entries t of
        [] \<Rightarrow> Inl (Exn RuntimeError ''Boolean value of Tensor with no values is ambiguous'')
      | [x] \<Rightarrow> Inr (x \<noteq> 0)
      | _ \<Rightarrow> Inl (Exn RuntimeError ''Boolean value of Tensor with more than one value is ambiguous''))"

definition digit :: "nat \<Rightarrow> char" where
  "digit d = ''0123456789'' ! d"

fun str_nat :: "nat \<Rightarrow> string" where
  "str_nat n = (if n < 10 then [digit n] else str_nat (n div 10) @ [digit (n mod 10)])"

declare str_nat.simps [simp del]

text \<open>
  A character of a text stands for the code point of the same number, so the texts are
  those with code points below 256. \<open>is_space\<close> holds of the code points below 256 that
  \<^verbatim>\<open>str.strip()\<close> removes: the controls 9 to 13 and 28 to 31, the space, 0x85 and 0xA0.
\<close>

definition is_space :: "char \<Rightarrow> bool" where
  "is_space c = (c \<in> set [CHR 0x09, CHR 0x0A, CHR 0x0B, CHR 0x0C, CHR 0x0D,
                            CHR 0x1C, CHR 0x1D, CHR 0x1E, CHR 0x1F, CHR '' '',
                            CHR 0x85, CHR 0xA0])"

definition py_strip :: "string \<Rightarrow> string" where
  "py_strip s = rev (dropWhile is_space (rev (dropWhile is_space s)))"

text \<open>\<^verbatim>\<open>s.startswith(p)\<close>.\<close>

fun starts_with :: "string \<Rightarrow> string \<Rightarrow> bool" where
  "starts_with s [] = True"
| "starts_with [] (p # ps) = False"
| "starts_with (c # cs) (p # ps) = (c = p \<and> starts_with cs ps)"

text \<open>
  \<^verbatim>\<open>s.find(sep)\<close>, returned as the text before the first occurrence of \<open>sep\<close> and the text
  after it; \<open>None\<close> when \<open>sep\<close> does not occur.
\<close>

fun find_first :: "string \<Rightarrow> string \<Rightarrow> (string \<times> string) option" where
  "find_first [] sep = (if sep = [] then Some ([], []) else None)"
| "find_first (c # cs) sep =
     (if starts_with (c # cs) sep then Some ([], drop (length sep) (c # cs))
      else map_option (\<lambda>(before, after). (c # before, after)) (find_first cs sep))"

lemma find_first_decomp:
  "find_first s sep = Some (before, after) \<Longrightarrow> s = before @ sep @ after"
proof (induction s arbitrary: before)
  case Nil
  then show ?case by (simp split: if_splits)
next
  case (Cons c cs)
  have sw: "starts_with t p \<Longrightarrow> t = p @ drop (length p) t" for t p
    by (induction t p rule: starts_with.induct) auto
  show ?case
  proof (cases "starts_with (c # cs) sep")
    case True
    with Cons.prems sw [of "c # cs" sep] show ?thesis by simp
  next
    case False
    with Cons.prems obtain b where "find_first cs sep = Some (b, after)" "before = c # b"
      by auto
    with Cons.IH show ?thesis by simp
  qed
qed

text \<open>
  The chunks of \<^verbatim>\<open>s.split(sep)\<close> for a non-empty \<open>sep\<close>: cut at the first occurrence,
  go on after it.
\<close>

function split_chunks :: "string \<Rightarrow> string \<Rightarrow> string list" where
  "split_chunks s sep =
     (if sep = [] then [s]
      else case find_first s sep of
             None \<Rightarrow> [s]
           | Some (before, after) \<Rightarrow> before # split_chunks after sep)"
  by pat_completeness auto
termination
  by (relation "measure (\<lambda>(s, sep). length s)") (auto dest: find_first_decomp)

declare split_chunks.simps [simp del]

text \<open>\<^verbatim>\<open>s.count(sep)\<close> for a non-empty \<open>sep\<close>: the occurrences \<^verbatim>\<open>split\<close> cuts at.\<close>

function count_marker :: "string \<Rightarrow> string \<Rightarrow> nat" where
  "count_marker s sep =
     (if sep = [] then 0
      else case find_first s sep of
             None \<Rightarrow> 0
           | Some (before, after) \<Rightarrow> Suc (count_marker after sep))"
  by pat_completeness auto
termination
  by (relation "measure (\<lambda>(s, sep). length s)") (auto dest: find_first_decomp)

declare count_marker.simps [simp del]

definition py_split :: "string \<Rightarrow> string \<Rightarrow> exn + string list" where
  "py_split s sep =
     (if sep = [] then Inl (Exn ValueError ''empty separator'') else Inr (split_chunks s sep))"

text \<open>Iterating a tensor yields its slices along the first axis; a 0-d tensor raises.\<close>

definition tensor_iter :: "tensor \<Rightarrow> exn + tensor list" where
  "tensor_iter t =
     (case shape t of
        [] \<Rightarrow> Inl (Exn TypeError ''iteration over a 0-d tensor'')
      | n # rest \<Rightarrow>
          Inr (map (\<lambda>i. Tensor rest (take (prod_list rest) (drop (i * prod_list rest) (entries t))))
                   [0..<n]))"

definition kwargs_get :: "(string \<rightharpoonup> pyval) \<Rightarrow> string \<Rightarrow> pyval \<Rightarrow> pyval" where
  "kwargs_get kwargs key dflt = (case kwargs key of None \<Rightarrow> dflt | Some v \<Rightarrow> v)"

section \<open>\<^verbatim>\<open>load_model\<close> (lines 74 to 135)\<close>

definition quantization_map :: "string \<rightharpoonup> (string \<times> int option)" where
  "quantization_map =
     [''bf16 (No Quantization, Highest Quality)'' \<mapsto> (''bf16'', None),
      ''nf4 (Fastest, Most Efficient, Lowest Quality)'' \<mapsto> (''bitsandbytes'', Some 4),
      ''fp4 (Fast, Very Efficient, Low Quality)'' \<mapsto> (''bitsandbytes'', Some 4),
      ''int8 (Medium Speed, Efficient, Medium Quality)'' \<mapsto> (''bitsandbytes'', Some 8)]"

text \<open>\<^verbatim>\<open>quantization_map.get(quantization_type, (None, None))\<close> (line 97).\<close>

definition quantization_get :: "pyval \<Rightarrow> string option \<times> int option" where
  "quantization_get quantization_type =
     (case quantization_type of
        PyStr label \<Rightarrow>
          (case quantization_map label of
             Some (quant_method, bits) \<Rightarrow> (Some quant_method, bits)
           | None \<Rightarrow> (None, None))
      | _ \<Rightarrow> (None, None))"

text \<open>Lines 99 to 120: the model, by the method the label selects.\<close>

definition load_weights :: "env \<Rightarrow> node \<Rightarrow> pyval \<Rightarrow> pyval \<Rightarrow> node \<times> call list \<times> unit flow" where
  "load_weights env s quantization_type cache =
     (let (quant_method, bits) = quantization_get quantization_type in
      if quant_method = Some ''bf16'' then
        (case model_from_pretrained env (model_name s) of
           Inr m \<Rightarrow>
             (s\<lparr>model := m, quantized := False\<rparr>, [CallModelFromPretrained (model_name s)], Next ())
         | Inl e \<Rightarrow>
             (s, [CallModelFromPretrained (model_name s)],
              if exn_class e = PreTrainedModelNotFoundError \<or> exn_class e = OSError
              then Return (''Error loading model '' @ [CHR 0x27] @ model_name s @ [CHR 0x27]
                           @ ''. It might not exist or there was an OSError: '' @ str_of e)
              else Raise e))
      else if quant_method = Some ''bitsandbytes'' then
        (case quantize_model env (model_name s) (device s) cache bits of
           Inr m \<Rightarrow>
             (s\<lparr>model := m, quantized := True\<rparr>,
              [CallQuantizeModel (model_name s) (device s) cache bits], Next ())
         | Inl e \<Rightarrow> (s, [CallQuantizeModel (model_name s) (device s) cache bits], Raise e))
      else (s, [], Return ''Invalid quantization type.''))"

text \<open>Lines 121 to 132: the check of the model, the tokenizer, \<^verbatim>\<open>self.model.eval()\<close>.\<close>

definition load_tokenizer :: "env \<Rightarrow> node \<Rightarrow> node \<times> call list \<times> unit flow" where
  "load_tokenizer env s =
     (case model s of
        None \<Rightarrow> (s, [], Return ''Failed to load model.'')
      | Some m \<Rightarrow>
          (case tokenizer_from_pretrained env (model_name s) of
             Inl e \<Rightarrow>
               (s, [CallTokenizerFromPretrained (model_name s)],
                Return (''Error loading tokenizer: '' @ str_of e))
           | Inr t \<Rightarrow>
               (s\<lparr>tokenizer := Some t\<rparr>,
                [CallTokenizerFromPretrained (model_name s), CallEval m],
                case model_eval env m of Some e \<Rightarrow> Raise e | None \<Rightarrow> Next ())))"

text \<open>
  The whole method: the body in its \<^verbatim>\<open>try\<close>, and the handler of line 134. The result is
  \<open>Inl\<close> for an exception that leaves the method, \<open>Inr (Some msg)\<close> for a returned error
  tuple and \<open>Inr None\<close> for the end of the body.
\<close>

definition load_model ::
  "env \<Rightarrow> node \<Rightarrow> pyval \<Rightarrow> pyval \<Rightarrow> node \<times> call list \<times> (exn + string option)" where
  "load_model env s quantization_type cache =
     (case load_weights env s quantization_type cache of
        (s1, calls1, Next _) \<Rightarrow>
          (case load_tokenizer env s1 of
             (s2, calls2, Next _) \<Rightarrow> (s2, calls1 @ calls2, Inr None)
           | (s2, calls2, Return msg) \<Rightarrow> (s2, calls1 @ calls2, Inr (Some msg))
           | (s2, calls2, Raise e) \<Rightarrow>
               (s2, calls1 @ calls2,
                Inr (Some (''An unexpected error occurred while loading the model: '' @ str_of e))))
      | (s1, calls1, Return msg) \<Rightarrow> (s1, calls1, Inr (Some msg))
      | (s1, calls1, Raise e) \<Rightarrow>
          (s1, calls1,
           Inr (Some (''An unexpected error occurred while loading the model: '' @ str_of e))))"

section \<open>\<^verbatim>\<open>generate_answer\<close> (lines 138 to 219)\<close>

text \<open>Lines 167 to 172: the body of the inner \<^verbatim>\<open>try\<close>, for one element of the batch.\<close>

definition check_and_convert :: "env \<Rightarrow> tensor \<Rightarrow> call list \<times> (exn + pil_image)" where
  "check_and_convert env img =
     (if length (shape img) \<le> 2 then ([], Inl (Exn IndexError ''tuple index out of range''))
      else if shape img ! 2 \<noteq> 1 \<and> shape img ! 2 \<noteq> 3 then
        ([], Inl (Exn ValueError (''Expected image tensor to have 1 or 3 channels, but got ''
                                   @ str_nat (shape img ! 2))))
      else if length (shape img) \<noteq> 3 then
        ([], Inl (Exn ValueError (''Expected image tensor to have 3 dimensions (C, H, W), but got ''
                                   @ str_nat (length (shape img)))))
      else ([CallToPILImage img], to_pil_image env img))"

text \<open>Lines 166 to 176: the inner \<^verbatim>\<open>try\<close> with its two handlers.\<close>

definition convert_one :: "env \<Rightarrow> tensor \<Rightarrow> call list \<times> pil_image flow" where
  "convert_one env img =
     (case check_and_convert env img of
        (calls, Inr pil_image) \<Rightarrow> (calls, Next pil_image)
      | (calls, Inl e) \<Rightarrow>
          (calls,
           if exn_class e = ValueError then Return (''Image processing error: '' @ str_of e)
           else Return (''Error converting image tensor to PIL Image: '' @ str_of e)))"

text \<open>Lines 164 to 176: the loop over the batch.\<close>

fun convert_images :: "env \<Rightarrow> tensor list \<Rightarrow> pil_image list \<Rightarrow> call list \<times> pil_image list flow" where
  "convert_images env [] pil_images = ([], Next pil_images)"
| "convert_images env (img # rest) pil_images =
     (case convert_one env img of
        (calls, Next pil_image) \<Rightarrow>
          (case convert_images env rest (pil_images @ [pil_image]) of
             (calls', r) \<Rightarrow> (calls @ calls', r))
      | (calls, Return msg) \<Rightarrow> (calls, Return msg)
      | (calls, Raise e) \<Rightarrow> (calls, Raise e))"

text \<open>Line 189: the tokenizer on every chunk, in order.\<close>

fun tokenize_chunks ::
  "env \<Rightarrow> tokenizer_ref \<Rightarrow> string list \<Rightarrow> call list \<times> (exn + int list list)" where
  "tokenize_chunks env t [] = ([], Inr [])"
| "tokenize_chunks env t (chunk # chunks) =
     (case tokenize env t chunk of
        Inl e \<Rightarrow> ([CallTokenize t chunk], Inl e)
      | Inr ids \<Rightarrow>
          (case tokenize_chunks env t chunks of
             (calls, Inl e) \<Rightarrow> (CallTokenize t chunk # calls, Inl e)
           | (calls, Inr text_chunks) \<Rightarrow> (CallTokenize t chunk # calls, Inr (ids # text_chunks))))"

text \<open>Line 190: \<^verbatim>\<open>text_chunks[0] + [-200] + text_chunks[1]\<close>, as a batch of one.\<close>

definition splice :: "int list list \<Rightarrow> exn + int list list" where
  "splice text_chunks =
     (case text_chunks of
        c0 # c1 # _ \<Rightarrow> Inr [c0 @ [- 200] @ c1]
      | _ \<Rightarrow> Inl (Exn IndexError ''list index out of range''))"

text \<open>Lines 179 to 190: from the prompt to \<^verbatim>\<open>input_ids\<close>.\<close>

definition encode_prompt ::
  "env \<Rightarrow> tokenizer_ref \<Rightarrow> string \<Rightarrow> call list \<times> (exn + int list list)" where
  "encode_prompt env t prompt =
     (let content = ''<image>'' @ [CHR 0x0A] @ prompt in
      case apply_chat_template env t content of
        Inl e \<Rightarrow> ([CallApplyChatTemplate t content], Inl e)
      | Inr text \<Rightarrow>
          (case py_split text ''<image>'' of
             Inl e \<Rightarrow> ([CallApplyChatTemplate t content], Inl e)
           | Inr chunks \<Rightarrow>
               (case tokenize_chunks env t chunks of
                  (calls, Inl e) \<Rightarrow> (CallApplyChatTemplate t content # calls, Inl e)
                | (calls, Inr text_chunks) \<Rightarrow>
                    (CallApplyChatTemplate t content # calls, splice text_chunks))))"

text \<open>\<^verbatim>\<open>input_ids.shape[1]\<close>: the length of the rows of a batch.\<close>

definition shape1 :: "int list list \<Rightarrow> nat" where
  "shape1 input_ids = (case input_ids of [] \<Rightarrow> 0 | row # _ \<Rightarrow> length row)"

text \<open>Lines 212 to 216: decoding, the test of \<^verbatim>\<open>self.cache\<close>, the release of the model.\<close>

definition decode_and_release ::
  "env \<Rightarrow> node \<Rightarrow> model_ref \<Rightarrow> tokenizer_ref \<Rightarrow> int list list \<Rightarrow> int list
    \<Rightarrow> node \<times> call list \<times> string flow" where
  "decode_and_release env s m t input_ids output_ids =
     (let new_ids = drop (shape1 input_ids) output_ids in
      case decode env t new_ids of
        Inl e \<Rightarrow> (s, [CallDecode t new_ids], Raise e)
      | Inr decoded \<Rightarrow>
          (case cache_attr s of
             None \<Rightarrow>
               (s, [CallDecode t new_ids],
                Raise (Exn AttributeError
                        ([CHR 0x27] @ ''DolphinVisionNode' object has no attribute 'cache'' @ [CHR 0x27])))
           | Some c \<Rightarrow>
               (case truthy c of
                  Inl e \<Rightarrow> (s, [CallDecode t new_ids], Raise e)
                | Inr True \<Rightarrow> (s, [CallDecode t new_ids], Next (py_strip decoded))
                | Inr False \<Rightarrow>
                    (case unload_model env m of
                       Some e \<Rightarrow> (s, [CallDecode t new_ids, CallUnloadModel m], Raise e)
                     | None \<Rightarrow>
                         (s\<lparr>quantized := False\<rparr>, [CallDecode t new_ids, CallUnloadModel m],
                          Next (py_strip decoded))))))"

text \<open>Lines 193 to 216: the images, the transfers to the device, generation, decoding.\<close>

definition run_model ::
  "env \<Rightarrow> node \<Rightarrow> model_ref \<Rightarrow> tokenizer_ref \<Rightarrow> pil_image list \<Rightarrow> int list list
    \<Rightarrow> node \<times> call list \<times> string flow" where
  "run_model env s m t pil_images input_ids =
     (case process_images env m pil_images of
        Inl e \<Rightarrow>
          (s, [CallProcessImages m pil_images],
           Return (''Error processing images with the model: '' @ str_of e))
      | Inr image_tensor \<Rightarrow>
          (case input_ids_to env (device s) of
             Some e \<Rightarrow>
               (s, [CallProcessImages m pil_images, CallInputIdsTo (device s)], Raise e)
           | None \<Rightarrow>
               (case image_tensor_to env (device s) of
                  Some e \<Rightarrow>
                    (s, [CallProcessImages m pil_images, CallInputIdsTo (device s),
                         CallImageTensorTo (device s)], Raise e)
                | None \<Rightarrow>
                    (case generate env m input_ids image_tensor of
                       Inl e \<Rightarrow>
                         (s, [CallProcessImages m pil_images, CallInputIdsTo (device s),
                              CallImageTensorTo (device s), CallGenerate m input_ids image_tensor],
                          Return (''Error during model generation: '' @ str_of e))
                     | Inr output_ids \<Rightarrow>
                         (case decode_and_release env s m t input_ids output_ids of
                            (s', calls, r) \<Rightarrow>
                              (s', [CallProcessImages m pil_images, CallInputIdsTo (device s),
                                    CallImageTensorTo (device s),
                                    CallGenerate m input_ids image_tensor] @ calls, r))))))"

text \<open>Lines 162 to 216: the body of the outer \<^verbatim>\<open>try\<close>.\<close>

definition generate_answer_body ::
  "env \<Rightarrow> node \<Rightarrow> model_ref \<Rightarrow> tokenizer_ref \<Rightarrow> tensor \<Rightarrow> string
    \<Rightarrow> node \<times> call list \<times> string flow" where
  "generate_answer_body env s m t image_arg prompt =
     (case tensor_iter image_arg of
        Inl e \<Rightarrow> (s, [], Raise e)
      | Inr imgs \<Rightarrow>
          (case convert_images env imgs [] of
             (calls1, Return msg) \<Rightarrow> (s, calls1, Return msg)
           | (calls1, Raise e) \<Rightarrow> (s, calls1, Raise e)
           | (calls1, Next pil_images) \<Rightarrow>
               (case encode_prompt env t prompt of
                  (calls2, Inl e) \<Rightarrow> (s, calls1 @ calls2, Raise e)
                | (calls2, Inr input_ids) \<Rightarrow>
                    (case run_model env s m t pil_images input_ids of
                       (s', calls3, r) \<Rightarrow> (s', calls1 @ calls2 @ calls3, r)))))"

text \<open>
  The method; \<open>image_arg\<close> is its parameter \<^verbatim>\<open>image\<close>. Line 153 stands outside the \<^verbatim>\<open>try\<close>, and what \<^verbatim>\<open>load_model\<close> returns
  is not looked at. The result is \<open>Inl\<close> for an exception that leaves the method and
  \<open>Inr\<close> for the string of the returned 1-tuple.
\<close>

definition generate_answer ::
  "env \<Rightarrow> node \<Rightarrow> pyval \<Rightarrow> pyval \<Rightarrow> (string \<rightharpoonup> pyval) \<Rightarrow> node \<times> call list \<times> (exn + string)" where
  "generate_answer env s image_arg prompt kwargs =
     (case load_model env s
             (kwargs_get kwargs ''quantization_type'' (PyStr ''bf16 (No Quantization, Highest Quality)''))
             (kwargs_get kwargs ''cache'' (PyBool False)) of
        (s1, calls1, Inl e) \<Rightarrow> (s1, calls1, Inl e)
      | (s1, calls1, Inr _) \<Rightarrow>
          (case (model s1, tokenizer s1) of
             (Some m, Some t) \<Rightarrow>
               (case image_arg of
                  PyTensor img \<Rightarrow>
                    (case prompt of
                       PyStr p \<Rightarrow>
                         (case generate_answer_body env s1 m t img p of
                            (s2, calls2, Next answer) \<Rightarrow> (s2, calls1 @ calls2, Inr answer)
                          | (s2, calls2, Return msg) \<Rightarrow> (s2, calls1 @ calls2, Inr msg)
                          | (s2, calls2, Raise e) \<Rightarrow>
                              (s2, calls1 @ calls2,
                               Inr (''An unexpected error occurred: '' @ str_of e)))
                     | _ \<Rightarrow> (s1, calls1, Inr ''Invalid input: 'prompt' must be a string.''))
                | _ \<Rightarrow> (s1, calls1, Inr ''Invalid input: 'image' must be a PyTorch tensor.''))
           | _ \<Rightarrow>
               (s1, calls1,
                Inr ''Model not loaded. Please check the node's configuration and ensure the model is loaded successfully.'')))"

section \<open>\<^verbatim>\<open>IS_CHANGED\<close> (lines 221 to 238) and \<^verbatim>\<open>unload\<close> (lines 240 to 245)\<close>

text \<open>The name of the class of a value, as an \<^verbatim>\<open>AttributeError\<close> prints it.\<close>

fun type_name :: "pyval \<Rightarrow> string" where
  "type_name PyNone = ''NoneType''"
| "type_name (PyBool b) = ''bool''"
| "type_name (PyInt i) = ''int''"
| "type_name (PyStr s) = ''str''"
| "type_name (PyTensor t) = ''Tensor''"

text \<open>
  \<^verbatim>\<open>v.tobytes()\<close>. None of the classes of the values has a method of this name
  (\<^verbatim>\<open>torch.Tensor\<close> has none, \<^verbatim>\<open>int\<close> has \<^verbatim>\<open>to_bytes\<close>), so the attribute lookup raises.
\<close>

definition tobytes :: "pyval \<Rightarrow> exn + string" where
  "tobytes v =
     Inl (Exn AttributeError
           ([CHR 0x27] @ type_name v @ [CHR 0x27] @ '' object has no attribute 'tobytes'' @ [CHR 0x27]))"

text \<open>
  \<open>py_hash\<close> is the built-in \<^verbatim>\<open>hash\<close> of the running interpreter on the pair. The result is
  \<open>Inl\<close> for an exception that leaves the method, which has no \<^verbatim>\<open>try\<close>.
\<close>

definition IS_CHANGED :: "(string \<times> pyval \<Rightarrow> int) \<Rightarrow> pyval \<Rightarrow> pyval \<Rightarrow> exn + int" where
  "IS_CHANGED py_hash image_arg prompt =
     (if image_arg = PyNone \<or> prompt = PyNone then Inr 0
      else case tobytes image_arg of
             Inl e \<Rightarrow> Inl e
           | Inr bytes \<Rightarrow> Inr (py_hash (bytes, prompt)))"

text \<open>A model object is true in a condition; \<^verbatim>\<open>None\<close> is false.\<close>

definition unload :: "env \<Rightarrow> node \<Rightarrow> node \<times> call list \<times> (exn + unit)" where
  "unload env s =
     (case model s of
        None \<Rightarrow> (s, [], Inr ())
      | Some m \<Rightarrow>
          (s, [CallUnloadModel m],
           case unload_model env m of Some e \<Rightarrow> Inl e | None \<Rightarrow> Inr ()))"

text \<open>\<^verbatim>\<open>isinstance(v, torch.Tensor)\<close> and \<^verbatim>\<open>isinstance(v, str)\<close> (lines 157 and 159).\<close>

definition is_tensor :: "pyval \<Rightarrow> bool" where
  "is_tensor v = (case v of PyTensor _ \<Rightarrow> True | _ \<Rightarrow> False)"

definition is_str :: "pyval \<Rightarrow> bool" where
  "is_str v = (case v of PyStr _ \<Rightarrow> True | _ \<Rightarrow> False)"

section \<open>Concrete collaborators and inputs\<close>

definition bf16_label :: string where
  "bf16_label = ''bf16 (No Quantization, Highest Quality)''"

definition chat_text :: "string \<Rightarrow> string" where
  "chat_text content =
     ''<|im_start|>user'' @ [CHR 0x0A] @ content @ ''<|im_end|>'' @ [CHR 0x0A]
     @ ''<|im_start|>assistant'' @ [CHR 0x0A]"

definition byte_ids :: "string \<Rightarrow> int list" where
  "byte_ids chunk = map (\<lambda>c. int (of_char c)) chunk"

definition env_ok :: env where
  "env_ok =
     \<lparr>model_from_pretrained = (\<lambda>name. Inr (Some (ModelRef 1))),
      quantize_model = (\<lambda>name dev cache bits. Inr (Some (ModelRef 2))),
      tokenizer_from_pretrained = (\<lambda>name. Inr (TokenizerRef 1)),
      model_eval = (\<lambda>m. None),
      to_pil_image = (\<lambda>img. Inr (PILImage (length (entries img)))),
      apply_chat_template = (\<lambda>t content. Inr (chat_text content)),
      tokenize = (\<lambda>t chunk. Inr (byte_ids chunk)),
      process_images = (\<lambda>m imgs. Inr (ImageTensor (length imgs))),
      input_ids_to = (\<lambda>dev. None),
      image_tensor_to = (\<lambda>dev. None),
      generate = (\<lambda>m input_ids image_tensor. Inr (concat input_ids @ [7, 8, 9])),
      decode = (\<lambda>t ids. Inr ('' A cat on a mat.'' @ [CHR 0x0A])),
      unload_model = (\<lambda>m. None)\<rparr>"

definition env_no_tokenizer :: env where
  "env_no_tokenizer =
     env_ok\<lparr>tokenizer_from_pretrained := (\<lambda>name. Inl (Exn OSError ''tokenizer files missing''))\<rparr>"

definition image_rgb :: tensor where
  "image_rgb = Tensor [1, 2, 2, 3] [0, 1, 2, 3, 4, 5, 6, 7, 8, 9, 10, 11]"

definition image_flat :: tensor where
  "image_flat = Tensor [1, 2, 2] [0, 1, 2, 3]"

definition chat_head :: string where
  "chat_head = ''<|im_start|>user'' @ [CHR 0x0A]"

definition chat_tail :: string where
  "chat_tail = ''<|im_end|>'' @ [CHR 0x0A] @ ''<|im_start|>assistant'' @ [CHR 0x0A]"

definition node_loaded :: node where
  "node_loaded = (init False)\<lparr>model := Some (ModelRef 1), tokenizer := Some (TokenizerRef 1)\<rparr>"

definition kwargs_no_cache :: "string \<rightharpoonup> pyval" where
  "kwargs_no_cache = [''quantization_type'' \<mapsto> PyStr bf16_label, ''cache'' \<mapsto> PyBool False]"

definition kwargs_nf4 :: "string \<rightharpoonup> pyval" where
  "kwargs_nf4 =
     [''quantization_type'' \<mapsto> PyStr ''nf4 (Fastest, Most Efficient, Lowest Quality)'',
      ''cache'' \<mapsto> PyBool False]"

definition env_eval_fails :: env where
  "env_eval_fails = env_ok\<lparr>model_eval := (\<lambda>m. Some (Exn RuntimeError ''eval failed''))\<rparr>"

definition kwargs_unsupported :: "string \<rightharpoonup> pyval" where
  "kwargs_unsupported = [''quantization_type'' \<mapsto> PyStr ''unsupported-label'']"

definition node_resident :: node where
  "node_resident = node_loaded\<lparr>cache_attr := Some (PyBool False)\<rparr>"


section \<open>What \<^verbatim>\<open>load_model\<close> leaves alone\<close>

lemma load_weights_keeps:
  "load_weights env s qt c = (s1, calls, r) \<Longrightarrow>
     tokenizer s1 = tokenizer s \<and> cache_attr s1 = cache_attr s \<and> model_name s1 = model_name s
     \<and> device s1 = device s"
  by (auto simp: load_weights_def split: prod.splits if_splits sum.splits)

lemma load_tokenizer_keeps:
  "load_tokenizer env s = (s1, calls, r) \<Longrightarrow>
     model s1 = model s \<and> cache_attr s1 = cache_attr s \<and> model_name s1 = model_name s
     \<and> device s1 = device s \<and> quantized s1 = quantized s"
  by (auto simp: load_tokenizer_def split: option.splits sum.splits)

lemma load_model_returns: "\<exists>s1 calls r. load_model env s qt c = (s1, calls, Inr r)"
  by (auto simp: load_model_def split: prod.splits flow.splits)

lemma load_model_cache_attr:
  assumes "load_model env s qt c = (s1, calls, r)"
  shows "cache_attr s1 = cache_attr s"
proof -
  obtain sa ca ra where w: "load_weights env s qt c = (sa, ca, ra)"
    by (cases "load_weights env s qt c") auto
  obtain sb cb rb where t: "load_tokenizer env sa = (sb, cb, rb)"
    by (cases "load_tokenizer env sa") auto
  have "cache_attr sa = cache_attr s" "cache_attr sb = cache_attr sa"
    using load_weights_keeps [OF w] load_tokenizer_keeps [OF t] by simp_all
  with assms w t show ?thesis
    by (cases ra; cases rb) (auto simp: load_model_def)
qed

section \<open>No exception leaves \<^verbatim>\<open>generate_answer\<close>\<close>

lemma generate_answer_returns:
  "\<exists>s' calls msg. generate_answer env s image_arg prompt kwargs = (s', calls, Inr msg)"
proof -
  obtain s1 calls1 r1 where
    "load_model env s
       (kwargs_get kwargs ''quantization_type'' (PyStr ''bf16 (No Quantization, Highest Quality)''))
       (kwargs_get kwargs ''cache'' (PyBool False)) = (s1, calls1, Inr r1)"
    using load_model_returns by blast
  then show ?thesis
    by (simp add: generate_answer_def split: option.splits pyval.splits prod.splits flow.splits)
qed

section \<open>The model is loaded before the arguments are checked\<close>

lemma generate_answer_not_loaded:
  assumes "load_model env s
       (kwargs_get kwargs ''quantization_type'' (PyStr ''bf16 (No Quantization, Highest Quality)''))
       (kwargs_get kwargs ''cache'' (PyBool False)) = (s1, calls1, Inr r)"
    and "model s1 = None \<or> tokenizer s1 = None"
  shows "generate_answer env s image_arg prompt kwargs =
     (s1, calls1, Inr ''Model not loaded. Please check the node's configuration and ensure the model is loaded successfully.'')"
  using assms(2) unfolding generate_answer_def assms(1)
  by (cases "model s1"; cases "tokenizer s1") simp_all

lemma generate_answer_not_tensor:
  assumes "load_model env s
       (kwargs_get kwargs ''quantization_type'' (PyStr ''bf16 (No Quantization, Highest Quality)''))
       (kwargs_get kwargs ''cache'' (PyBool False)) = (s1, calls1, Inr r)"
    and "model s1 = Some m" "tokenizer s1 = Some t" "\<not> is_tensor image_arg"
  shows "generate_answer env s image_arg prompt kwargs =
     (s1, calls1, Inr ''Invalid input: 'image' must be a PyTorch tensor.'')"
  using assms(2-) unfolding generate_answer_def assms(1)
  by (cases image_arg) (simp_all add: is_tensor_def)

lemma generate_answer_not_str:
  assumes "load_model env s
       (kwargs_get kwargs ''quantization_type'' (PyStr ''bf16 (No Quantization, Highest Quality)''))
       (kwargs_get kwargs ''cache'' (PyBool False)) = (s1, calls1, Inr r)"
    and "model s1 = Some m" "tokenizer s1 = Some t" "is_tensor image_arg" "\<not> is_str prompt"
  shows "generate_answer env s image_arg prompt kwargs =
     (s1, calls1, Inr ''Invalid input: 'prompt' must be a string.'')"
  using assms(2-) unfolding generate_answer_def assms(1)
  by (cases image_arg; cases prompt) (simp_all add: is_tensor_def is_str_def)

text \<open>
  Claim C8. When the image is not a tensor or the prompt is not a string, the node and the
  calls made are exactly those of \<open>load_model\<close>, run on the label and the cache flag of the
  keyword arguments: the load is attempted first. The answer is the message of line 155
  when the model or the tokenizer is absent after it, and the type error otherwise.
\<close>

theorem generate_answer_loads_first:
  assumes "load_model env s
       (kwargs_get kwargs ''quantization_type'' (PyStr ''bf16 (No Quantization, Highest Quality)''))
       (kwargs_get kwargs ''cache'' (PyBool False)) = (s1, calls1, r1)"
    and "\<not> is_tensor image_arg \<or> \<not> is_str prompt"
  shows "generate_answer env s image_arg prompt kwargs =
     (s1, calls1,
      Inr (if model s1 = None \<or> tokenizer s1 = None
           then ''Model not loaded. Please check the node's configuration and ensure the model is loaded successfully.''
           else if \<not> is_tensor image_arg then ''Invalid input: 'image' must be a PyTorch tensor.''
           else ''Invalid input: 'prompt' must be a string.''))"
proof -
  obtain sa ca r where "load_model env s
       (kwargs_get kwargs ''quantization_type'' (PyStr ''bf16 (No Quantization, Highest Quality)''))
       (kwargs_get kwargs ''cache'' (PyBool False)) = (sa, ca, Inr r)"
    using load_model_returns by blast
  with assms(1) have l: "load_model env s
       (kwargs_get kwargs ''quantization_type'' (PyStr ''bf16 (No Quantization, Highest Quality)''))
       (kwargs_get kwargs ''cache'' (PyBool False)) = (s1, calls1, Inr r)" by simp
  show ?thesis
  proof (cases "model s1 = None \<or> tokenizer s1 = None")
    case True
    then show ?thesis
      using generate_answer_not_loaded [OF l True] by (simp only: if_True)
  next
    case False
    then obtain m t where mt: "model s1 = Some m" "tokenizer s1 = Some t" by auto
    show ?thesis
    proof (cases "is_tensor image_arg")
      case nt: False
      show ?thesis
        using generate_answer_not_tensor [OF l mt nt] False nt
        by (simp only: if_False if_True not_False_eq_True)
    next
      case it: True
      with assms(2) have ns: "\<not> is_str prompt" by simp
      show ?thesis
        using generate_answer_not_str [OF l mt it ns] False it
        by (simp only: if_False not_True_eq_False)
    qed
  qed
qed

text \<open>A new node, the default label, a prompt that is a number: the three calls of the load.\<close>

theorem generate_answer_loads_first_witness:
  "generate_answer env_ok (init False) (PyTensor image_rgb) (PyInt 123) Map.empty =
     (node_loaded,
      [CallModelFromPretrained ''cognitivecomputations/dolphin-vision-7b'',
       CallTokenizerFromPretrained ''cognitivecomputations/dolphin-vision-7b'',
       CallEval (ModelRef 1)],
      Inr ''Invalid input: 'prompt' must be a string.'')"
proof -
  have l: "load_model env_ok (init False)
       (kwargs_get Map.empty ''quantization_type'' (PyStr ''bf16 (No Quantization, Highest Quality)''))
       (kwargs_get Map.empty ''cache'' (PyBool False)) =
     (node_loaded,
      [CallModelFromPretrained ''cognitivecomputations/dolphin-vision-7b'',
       CallTokenizerFromPretrained ''cognitivecomputations/dolphin-vision-7b'',
       CallEval (ModelRef 1)], Inr None)"
    by code_simp
  have h: "\<not> is_tensor (PyTensor image_rgb) \<or> \<not> is_str (PyInt 123)"
    by (simp add: is_str_def)
  show ?thesis
    using generate_answer_loads_first [OF l h]
    by (simp add: is_tensor_def node_loaded_def init_def)
qed

section \<open>Splitting at the image marker\<close>

lemma split_chunks_None:
  "sep \<noteq> [] \<Longrightarrow> find_first s sep = None \<Longrightarrow> split_chunks s sep = [s]"
  by (simp add: split_chunks.simps)

lemma split_chunks_Some:
  "sep \<noteq> [] \<Longrightarrow> find_first s sep = Some (a, b) \<Longrightarrow> split_chunks s sep = a # split_chunks b sep"
  by (simp add: split_chunks.simps)

lemma split_chunks_not_Nil: "split_chunks s sep \<noteq> []"
  by (subst split_chunks.simps) (simp split: option.splits)

lemma count_marker_None:
  "find_first s sep = None \<Longrightarrow> count_marker s sep = 0"
  by (simp add: count_marker.simps)

lemma count_marker_Some:
  "sep \<noteq> [] \<Longrightarrow> find_first s sep = Some (a, b) \<Longrightarrow> count_marker s sep = Suc (count_marker b sep)"
  by (simp add: count_marker.simps)

lemma tokenize_chunks_total:
  "(\<And>chunk. tokenize env t chunk = Inr (tok chunk)) \<Longrightarrow>
     tokenize_chunks env t chunks = (map (CallTokenize t) chunks, Inr (map tok chunks))"
  by (induction chunks) auto

lemma one_marker_chunks:
  assumes "count_marker txt sep = 1" "sep \<noteq> []"
  shows "\<exists>pre suf. find_first txt sep = Some (pre, suf) \<and> find_first suf sep = None
            \<and> split_chunks txt sep = [pre, suf]"
proof (cases "find_first txt sep")
  case None
  with assms show ?thesis by (simp add: count_marker_None)
next
  case (Some p)
  obtain pre suf where p: "p = (pre, suf)" by (cases p)
  with Some assms have c0: "count_marker suf sep = 0" by (simp add: count_marker_Some)
  have n: "find_first suf sep = None"
  proof (cases "find_first suf sep")
    case None then show ?thesis .
  next
    case (Some q)
    obtain x y where "q = (x, y)" by (cases q)
    with Some assms(2) c0 show ?thesis by (simp add: count_marker_Some)
  qed
  with Some p assms(2) show ?thesis by (simp add: split_chunks_Some split_chunks_None)
qed

lemma many_marker_chunks:
  assumes "1 < count_marker txt sep" "sep \<noteq> []"
  shows "\<exists>a b rest chunks. find_first txt sep = Some (a, b @ sep @ rest)
            \<and> find_first (b @ sep @ rest) sep = Some (b, rest)
            \<and> split_chunks txt sep = a # b # chunks"
proof (cases "find_first txt sep")
  case None
  with assms show ?thesis by (simp add: count_marker_None)
next
  case (Some p)
  obtain a r1 where p: "p = (a, r1)" by (cases p)
  with Some assms have c1: "0 < count_marker r1 sep" by (simp add: count_marker_Some)
  show ?thesis
  proof (cases "find_first r1 sep")
    case None
    with c1 show ?thesis by (simp add: count_marker_None)
  next
    case inner: (Some q)
    obtain b rest where q: "q = (b, rest)" by (cases q)
    with inner have r1: "r1 = b @ sep @ rest" by (simp add: find_first_decomp)
    obtain c cs where cs: "split_chunks rest sep = c # cs"
      using split_chunks_not_Nil [of rest sep] by (cases "split_chunks rest sep") auto
    have f1: "find_first txt sep = Some (a, b @ sep @ rest)" using Some p r1 by simp
    have f2: "find_first (b @ sep @ rest) sep = Some (b, rest)" using inner q r1 by simp
    have "split_chunks txt sep = a # b # c # cs"
      using f1 f2 cs assms(2) by (simp add: split_chunks_Some)
    with f1 f2 show ?thesis by blast
  qed
qed

section \<open>The encoded prompt\<close>

lemma encode_prompt_chunks:
  assumes "apply_chat_template env t (''<image>'' @ [CHR 0x0A] @ prompt) = Inr txt"
    and "split_chunks txt ''<image>'' = a # b # chunks"
    and "\<And>chunk. tokenize env t chunk = Inr (tok chunk)"
  shows "encode_prompt env t prompt =
     (CallApplyChatTemplate t (''<image>'' @ [CHR 0x0A] @ prompt)
        # map (CallTokenize t) (a # b # chunks),
      Inr [tok a @ [- 200] @ tok b])"
proof -
  have tc: "tokenize_chunks env t (a # b # chunks) =
      (map (CallTokenize t) (a # b # chunks), Inr (map tok (a # b # chunks)))"
    using assms(3) by (rule tokenize_chunks_total)
  have sp: "py_split txt ''<image>'' = Inr (a # b # chunks)"
    using assms(2) by (simp add: py_split_def)
  show ?thesis
    unfolding encode_prompt_def Let_def assms(1) sum.case sp tc prod.case
    by (simp add: splice_def)
qed

text \<open>
  Claim C5. When the rendered chat text holds the marker \<^verbatim>\<open><image>\<close> exactly once and the
  tokenizer returns on every chunk, with ids other than -200 (they index a vocabulary),
  \<open>encode_prompt\<close> returns one sequence in a batch of one: the ids of the text before
  the marker, then -200, then the ids of the text after it. The sequence holds -200 once,
  at the index that is the number of ids of the text before the marker.
\<close>

theorem encode_prompt_one_marker:
  assumes "apply_chat_template env t (''<image>'' @ [CHR 0x0A] @ prompt) = Inr txt"
    and "count_marker txt ''<image>'' = 1"
    and "\<And>chunk. tokenize env t chunk = Inr (tok chunk)"
    and "\<And>chunk. - 200 \<notin> set (tok chunk)"
  shows "\<exists>pre suf. txt = pre @ ''<image>'' @ suf
           \<and> find_first txt ''<image>'' = Some (pre, suf)
           \<and> snd (encode_prompt env t prompt) = Inr [tok pre @ [- 200] @ tok suf]
           \<and> count_list (tok pre @ [- 200] @ tok suf) (- 200) = 1
           \<and> (tok pre @ [- 200] @ tok suf) ! length (tok pre) = - 200"
proof -
  obtain pre suf where ps: "find_first txt ''<image>'' = Some (pre, suf)"
      "split_chunks txt ''<image>'' = [pre, suf]"
    using one_marker_chunks [OF assms(2)] by auto
  have enc: "snd (encode_prompt env t prompt) = Inr [tok pre @ [- 200] @ tok suf]"
    using encode_prompt_chunks [OF assms(1) ps(2) assms(3)] by simp
  have "count_list (tok pre) (- 200) = 0" "count_list (tok suf) (- 200) = 0"
    using assms(4) by (simp_all add: count_list_0_iff)
  then have cnt: "count_list (tok pre @ [- 200] @ tok suf) (- 200) = 1"
    by simp
  have nth: "(tok pre @ [- 200] @ tok suf) ! length (tok pre) = - 200"
    by (simp add: nth_append)
  have dec: "txt = pre @ ''<image>'' @ suf"
    using ps(1) by (rule find_first_decomp)
  from dec ps(1) enc cnt nth show ?thesis by blast
qed

text \<open>
  Claim C9. When the rendered chat text holds the marker more than once and the tokenizer
  returns on every chunk, \<open>encode_prompt\<close> returns without an error, and its sequence is the
  ids of the text before the first marker, then -200, then the ids of the text between
  the first and the second marker; the text after the second marker takes no part in it.
\<close>

theorem encode_prompt_many_markers:
  assumes "apply_chat_template env t (''<image>'' @ [CHR 0x0A] @ prompt) = Inr txt"
    and "1 < count_marker txt ''<image>''"
    and "\<And>chunk. tokenize env t chunk = Inr (tok chunk)"
  shows "\<exists>a b rest. txt = a @ ''<image>'' @ b @ ''<image>'' @ rest
           \<and> find_first txt ''<image>'' = Some (a, b @ ''<image>'' @ rest)
           \<and> find_first (b @ ''<image>'' @ rest) ''<image>'' = Some (b, rest)
           \<and> snd (encode_prompt env t prompt) = Inr [tok a @ [- 200] @ tok b]"
proof -
  obtain a b rest chunks where ab: "find_first txt ''<image>'' = Some (a, b @ ''<image>'' @ rest)"
      "find_first (b @ ''<image>'' @ rest) ''<image>'' = Some (b, rest)"
      "split_chunks txt ''<image>'' = a # b # chunks"
    using many_marker_chunks [OF assms(2)] by auto
  have enc: "snd (encode_prompt env t prompt) = Inr [tok a @ [- 200] @ tok b]"
    using encode_prompt_chunks [OF assms(1) ab(3) assms(3)] by simp
  have dec: "txt = a @ ''<image>'' @ b @ ''<image>'' @ rest"
    using ab(1) by (rule find_first_decomp)
  from dec ab(1,2) enc show ?thesis by blast
qed

lemma byte_ids_vocab: "- 200 \<notin> set (byte_ids chunk)"
  by (auto simp: byte_ids_def)

theorem encode_prompt_one_marker_witness:
  "count_marker (chat_text (''<image>'' @ [CHR 0x0A] @ ''Describe the image.'')) ''<image>'' = 1 \<and>
   snd (encode_prompt env_ok (TokenizerRef 1) ''Describe the image.'') =
     Inr [byte_ids chat_head @ [- 200] @ byte_ids ([CHR 0x0A] @ ''Describe the image.'' @ chat_tail)] \<and>
   count_list (byte_ids chat_head @ [- 200]
                 @ byte_ids ([CHR 0x0A] @ ''Describe the image.'' @ chat_tail)) (- 200) = 1 \<and>
   (byte_ids chat_head @ [- 200] @ byte_ids ([CHR 0x0A] @ ''Describe the image.'' @ chat_tail))
     ! length (byte_ids chat_head) = - 200"
proof -
  have tmpl: "apply_chat_template env_ok (TokenizerRef 1) (''<image>'' @ [CHR 0x0A] @ ''Describe the image.'')
      = Inr (chat_text (''<image>'' @ [CHR 0x0A] @ ''Describe the image.''))"
    by (simp add: env_ok_def)
  have one: "count_marker (chat_text (''<image>'' @ [CHR 0x0A] @ ''Describe the image.'')) ''<image>'' = 1"
    by code_simp
  have tok: "\<And>chunk. tokenize env_ok (TokenizerRef 1) chunk = Inr (byte_ids chunk)"
    by (simp add: env_ok_def)
  have ff: "find_first (chat_text (''<image>'' @ [CHR 0x0A] @ ''Describe the image.'')) ''<image>''
      = Some (chat_head, [CHR 0x0A] @ ''Describe the image.'' @ chat_tail)"
    by code_simp
  from encode_prompt_one_marker [OF tmpl one tok byte_ids_vocab] ff one
  show ?thesis by auto
qed

theorem encode_prompt_many_markers_witness:
  "count_marker (chat_text (''<image>'' @ [CHR 0x0A] @ ''Compare with <image> please.'')) ''<image>'' = 2 \<and>
   snd (encode_prompt env_ok (TokenizerRef 1) ''Compare with <image> please.'') =
     Inr [byte_ids chat_head @ [- 200] @ byte_ids ([CHR 0x0A] @ ''Compare with '')]"
proof -
  have tmpl: "apply_chat_template env_ok (TokenizerRef 1) (''<image>'' @ [CHR 0x0A] @ ''Compare with <image> please.'')
      = Inr (chat_text (''<image>'' @ [CHR 0x0A] @ ''Compare with <image> please.''))"
    by (simp add: env_ok_def)
  have two: "count_marker (chat_text (''<image>'' @ [CHR 0x0A] @ ''Compare with <image> please.'')) ''<image>'' = 2"
    by code_simp
  then have many: "1 < count_marker (chat_text (''<image>'' @ [CHR 0x0A] @ ''Compare with <image> please.'')) ''<image>''"
    by simp
  have tok: "\<And>chunk. tokenize env_ok (TokenizerRef 1) chunk = Inr (byte_ids chunk)"
    by (simp add: env_ok_def)
  have ff: "find_first (chat_text (''<image>'' @ [CHR 0x0A] @ ''Compare with <image> please.'')) ''<image>''
      = Some (chat_head, [CHR 0x0A] @ ''Compare with '' @ ''<image>'' @ '' please.'' @ chat_tail)"
    by code_simp
  have ff2: "find_first ([CHR 0x0A] @ ''Compare with '' @ ''<image>'' @ '' please.'' @ chat_tail) ''<image>''
      = Some ([CHR 0x0A] @ ''Compare with '', '' please.'' @ chat_tail)"
    by code_simp
  from encode_prompt_many_markers [OF tmpl many tok] obtain a b rest where
    r: "find_first (chat_text (''<image>'' @ [CHR 0x0A] @ ''Compare with <image> please.'')) ''<image>''
          = Some (a, b @ ''<image>'' @ rest)"
       "find_first (b @ ''<image>'' @ rest) ''<image>'' = Some (b, rest)"
       "snd (encode_prompt env_ok (TokenizerRef 1) ''Compare with <image> please.'')
          = Inr [byte_ids a @ [- 200] @ byte_ids b]"
    by blast
  from r(1) ff have a: "a = chat_head"
    and br: "b @ ''<image>'' @ rest = [CHR 0x0A] @ ''Compare with '' @ ''<image>'' @ '' please.'' @ chat_tail"
    by simp_all
  from r(2) ff2 have "b = [CHR 0x0A] @ ''Compare with ''" unfolding br by simp
  with a r(3) two show ?thesis by simp
qed

section \<open>A tokenizer that fails to load\<close>

text \<open>
  Claim C3, as the code has it. When the model loads (by either method) and the tokenizer
  then fails to load, \<open>load_model\<close> returns the message of line 130, its last call being
  the one for the tokenizer. The node keeps the model it has just loaded, and its tokenizer
  is the one it had before the call: nothing is reverted.
\<close>

theorem load_model_tokenizer_failure:
  assumes "(quantization_get qt = (Some ''bf16'', bits)
              \<and> model_from_pretrained env (model_name s) = Inr (Some m))
         \<or> (quantization_get qt = (Some ''bitsandbytes'', bits)
              \<and> quantize_model env (model_name s) (device s) c bits = Inr (Some m))"
    and "tokenizer_from_pretrained env (model_name s) = Inl e"
  shows "snd (snd (load_model env s qt c)) = Inr (Some (''Error loading tokenizer: '' @ str_of e))
       \<and> model (fst (load_model env s qt c)) = Some m
       \<and> tokenizer (fst (load_model env s qt c)) = tokenizer s
       \<and> last (fst (snd (load_model env s qt c))) = CallTokenizerFromPretrained (model_name s)"
proof -
  obtain s1 calls1 where w: "load_weights env s qt c = (s1, calls1, Next ())"
      and m: "model s1 = Some m"
    using assms(1) by (auto simp: load_weights_def)
  have k: "tokenizer s1 = tokenizer s" "model_name s1 = model_name s"
    using load_weights_keeps [OF w] by simp_all
  have t: "load_tokenizer env s1 =
      (s1, [CallTokenizerFromPretrained (model_name s)],
       Return (''Error loading tokenizer: '' @ str_of e))"
    using m k assms(2) by (simp add: load_tokenizer_def)
  have "load_model env s qt c =
      (s1, calls1 @ [CallTokenizerFromPretrained (model_name s)],
       Inr (Some (''Error loading tokenizer: '' @ str_of e)))"
    unfolding load_model_def w prod.case flow.case t by simp
  with m k show ?thesis by simp
qed


theorem load_model_tokenizer_failure_witness:
  "snd (snd (load_model env_no_tokenizer (init False) (PyStr bf16_label) (PyBool False)))
     = Inr (Some ''Error loading tokenizer: tokenizer files missing'')
   \<and> model (fst (load_model env_no_tokenizer (init False) (PyStr bf16_label) (PyBool False)))
     = Some (ModelRef 1)
   \<and> tokenizer (fst (load_model env_no_tokenizer (init False) (PyStr bf16_label) (PyBool False)))
     = None"
proof -
  have a: "(quantization_get (PyStr bf16_label) = (Some ''bf16'', None)
              \<and> model_from_pretrained env_no_tokenizer (model_name (init False)) = Inr (Some (ModelRef 1)))
         \<or> (quantization_get (PyStr bf16_label) = (Some ''bitsandbytes'', None)
              \<and> quantize_model env_no_tokenizer (model_name (init False)) (device (init False))
                   (PyBool False) None = Inr (Some (ModelRef 1)))"
    by (simp add: quantization_get_def quantization_map_def bf16_label_def env_no_tokenizer_def
          env_ok_def)
  have b: "tokenizer_from_pretrained env_no_tokenizer (model_name (init False))
      = Inl (Exn OSError ''tokenizer files missing'')"
    by (simp add: env_no_tokenizer_def)
  from load_model_tokenizer_failure [OF a b] show ?thesis
    by (simp add: init_def)
qed


text \<open>On a new node the model is present after the failed load, and the tokenizer is not.\<close>

theorem load_model_tokenizer_failure_counterexample:
  "snd (snd (load_model env_no_tokenizer (init False) (PyStr bf16_label) (PyBool False)))
     = Inr (Some ''Error loading tokenizer: tokenizer files missing'')
   \<and> model (fst (load_model env_no_tokenizer (init False) (PyStr bf16_label) (PyBool False)))
     \<noteq> None"
  by code_simp


section \<open>An unrecognized quantization label\<close>

text \<open>
  Claim C2, at the label of the spec's scenario 8. \<open>load_model\<close> returns
  \<^verbatim>\<open>Invalid quantization type.\<close>, and \<open>generate_answer\<close>, which drops what \<open>load_model\<close>
  returns, answers with the message of line 155 on a new node; on a node that still holds
  a model and a tokenizer it goes on and answers with a description.
\<close>

theorem generate_answer_unsupported_label:
  "snd (snd (load_model env_ok (init False) (PyStr ''unsupported-label'') (PyBool False)))
     = Inr (Some ''Invalid quantization type.'')
   \<and> generate_answer env_ok (init False) (PyTensor image_rgb) (PyStr ''Describe the image.'')
       kwargs_unsupported
     = (init False, [],
        Inr ''Model not loaded. Please check the node's configuration and ensure the model is loaded successfully.'')
   \<and> snd (snd (generate_answer env_ok node_resident (PyTensor image_rgb)
                  (PyStr ''Describe the image.'') kwargs_unsupported))
     = Inr ''A cat on a mat.''"
  by code_simp


section \<open>The checks on the elements of the batch\<close>

lemma convert_one_short_shape:
  "length (shape img) < 3 \<Longrightarrow>
     convert_one env img =
       ([], Return ''Error converting image tensor to PIL Image: tuple index out of range'')"
  by (simp add: convert_one_def check_and_convert_def)

lemma convert_one_bad_channels:
  "length (shape img) = 3 \<Longrightarrow> shape img ! 2 \<noteq> 1 \<Longrightarrow> shape img ! 2 \<noteq> 3 \<Longrightarrow>
     convert_one env img =
       ([], Return (''Image processing error: Expected image tensor to have 1 or 3 channels, but got ''
                    @ str_nat (shape img ! 2)))"
  by (simp add: convert_one_def check_and_convert_def)

lemma convert_images_stops:
  "convert_one env img = (calls, Return msg) \<Longrightarrow>
     convert_images env (img # rest) pil_images = (calls, Return msg)"
  by simp

text \<open>
  Claim C4, at a batch of one element with two dimensions. Line 167 reads \<^verbatim>\<open>img.shape[2]\<close>
  before line 169 checks the number of dimensions, so the element raises an
  \<^verbatim>\<open>IndexError\<close>, and the answer is the message of line 176 and not the shape error of
  line 170. No element is converted.
\<close>

theorem generate_answer_flat_element:
  "generate_answer env_ok (init False) (PyTensor image_flat) (PyStr ''Describe the image.'')
       kwargs_no_cache
     = (node_loaded,
        [CallModelFromPretrained ''cognitivecomputations/dolphin-vision-7b'',
         CallTokenizerFromPretrained ''cognitivecomputations/dolphin-vision-7b'',
         CallEval (ModelRef 1)],
        Inr ''Error converting image tensor to PIL Image: tuple index out of range'')"
  by code_simp


section \<open>The model reference after a call\<close>

lemma load_weights_no_decode:
  "load_weights env s qt c = (s1, calls, r) \<Longrightarrow> CallDecode t ids \<notin> set calls"
  by (auto simp: load_weights_def split: prod.splits if_splits sum.splits)

lemma load_tokenizer_no_decode:
  "load_tokenizer env s = (s1, calls, r) \<Longrightarrow> CallDecode t ids \<notin> set calls"
  by (auto simp: load_tokenizer_def split: option.splits sum.splits)

lemma load_model_no_decode:
  assumes "load_model env s qt c = (s1, calls, r)"
  shows "CallDecode t ids \<notin> set calls"
proof -
  obtain sa ca ra where w: "load_weights env s qt c = (sa, ca, ra)"
    by (cases "load_weights env s qt c") auto
  obtain sb cb rb where k: "load_tokenizer env sa = (sb, cb, rb)"
    by (cases "load_tokenizer env sa") auto
  have "CallDecode t ids \<notin> set ca" "CallDecode t ids \<notin> set cb"
    using load_weights_no_decode [OF w] load_tokenizer_no_decode [OF k] by simp_all
  with assms w k show ?thesis
    by (cases ra; cases rb) (auto simp: load_model_def)
qed

lemma decode_and_release_model:
  "decode_and_release env s m t input_ids output_ids = (s', calls, r) \<Longrightarrow> model s' = model s"
  by (auto simp: decode_and_release_def Let_def split: sum.splits option.splits bool.splits)

lemma run_model_model:
  assumes "run_model env s m t pil_images input_ids = (s', calls, r)"
  shows "model s' = model s"
proof (cases "process_images env m pil_images")
  case (Inl e)
  with assms show ?thesis by (simp add: run_model_def)
next
  case (Inr image_tensor)
  show ?thesis
  proof (cases "input_ids_to env (device s)")
    case (Some e)
    with assms Inr show ?thesis by (simp add: run_model_def)
  next
    case n1: None
    show ?thesis
    proof (cases "image_tensor_to env (device s)")
      case (Some e)
      with assms Inr n1 show ?thesis by (simp add: run_model_def)
    next
      case n2: None
      show ?thesis
      proof (cases "generate env m input_ids image_tensor")
        case (Inl e)
        with assms Inr n1 n2 show ?thesis by (simp add: run_model_def)
      next
        case g: (Inr output_ids)
        obtain sd cd rd where d: "decode_and_release env s m t input_ids output_ids = (sd, cd, rd)"
          by (cases "decode_and_release env s m t input_ids output_ids") auto
        from assms Inr n1 n2 g d have "s' = sd" by (simp add: run_model_def)
        with decode_and_release_model [OF d] show ?thesis by simp
      qed
    qed
  qed
qed

lemma generate_answer_body_model:
  assumes "generate_answer_body env s m t img p = (s', calls, r)"
  shows "model s' = model s"
proof (cases "tensor_iter img")
  case (Inl e)
  with assms show ?thesis by (simp add: generate_answer_body_def)
next
  case (Inr imgs)
  obtain c1 r1 where ci: "convert_images env imgs [] = (c1, r1)"
    by (cases "convert_images env imgs []") auto
  show ?thesis
  proof (cases r1)
    case (Return msg)
    with assms Inr ci show ?thesis by (simp add: generate_answer_body_def)
  next
    case (Raise e)
    with assms Inr ci show ?thesis by (simp add: generate_answer_body_def)
  next
    case (Next pil_images)
    obtain c2 r2 where en: "encode_prompt env t p = (c2, r2)"
      by (cases "encode_prompt env t p") auto
    show ?thesis
    proof (cases r2)
      case (Inl e)
      with assms Inr ci Next en show ?thesis by (simp add: generate_answer_body_def)
    next
      case ids: (Inr input_ids)
      obtain s3 c3 r3 where rm: "run_model env s m t pil_images input_ids = (s3, c3, r3)"
        by (cases "run_model env s m t pil_images input_ids") auto
      from assms Inr ci Next en ids rm have "s' = s3" by (simp add: generate_answer_body_def)
      with run_model_model [OF rm] show ?thesis by simp
    qed
  qed
qed

lemma generate_answer_model:
  assumes "load_model env s
       (kwargs_get kwargs ''quantization_type'' (PyStr ''bf16 (No Quantization, Highest Quality)''))
       (kwargs_get kwargs ''cache'' (PyBool False)) = (s1, calls1, Inr r)"
  shows "model (fst (generate_answer env s image_arg prompt kwargs)) = model s1"
proof (cases "model s1 = None \<or> tokenizer s1 = None")
  case True
  show ?thesis using generate_answer_not_loaded [OF assms True] by simp
next
  case False
  then obtain m t where mt: "model s1 = Some m" "tokenizer s1 = Some t" by auto
  show ?thesis
  proof (cases "is_tensor image_arg")
    case nt: False
    show ?thesis using generate_answer_not_tensor [OF assms mt nt] by simp
  next
    case it: True
    then obtain img where img: "image_arg = PyTensor img"
      by (cases image_arg) (simp_all add: is_tensor_def)
    show ?thesis
    proof (cases "is_str prompt")
      case ns: False
      show ?thesis using generate_answer_not_str [OF assms mt it ns] by simp
    next
      case True
      then obtain p where p: "prompt = PyStr p"
        by (cases prompt) (simp_all add: is_str_def)
      obtain s2 c2 r2 where b: "generate_answer_body env s1 m t img p = (s2, c2, r2)"
        by (cases "generate_answer_body env s1 m t img p") auto
      have "fst (generate_answer env s image_arg prompt kwargs) = s2"
        unfolding generate_answer_def assms prod.case sum.case mt option.case img p pyval.case b
        by (cases r2) simp_all
      with generate_answer_body_model [OF b] show ?thesis by simp
    qed
  qed
qed

text \<open>
  Claim C1, as the code has it by design. After every call of \<open>generate_answer\<close> that
  reaches decoding (the tokenizer's \<^verbatim>\<open>decode\<close> is among its calls), the node's model
  reference is present: it is the one \<open>load_model\<close> left, and no later step clears it.
  What line 213 does with the attribute \<^verbatim>\<open>cache\<close> takes no part in the statement.
\<close>

theorem generate_answer_keeps_model:
  assumes "CallDecode t ids \<in> set (fst (snd (generate_answer env s image_arg prompt kwargs)))"
  shows "model (fst (generate_answer env s image_arg prompt kwargs)) \<noteq> None
       \<and> model (fst (generate_answer env s image_arg prompt kwargs)) =
           model (fst (load_model env s
             (kwargs_get kwargs ''quantization_type'' (PyStr ''bf16 (No Quantization, Highest Quality)''))
             (kwargs_get kwargs ''cache'' (PyBool False))))"
proof -
  obtain s1 calls1 r where l: "load_model env s
       (kwargs_get kwargs ''quantization_type'' (PyStr ''bf16 (No Quantization, Highest Quality)''))
       (kwargs_get kwargs ''cache'' (PyBool False)) = (s1, calls1, Inr r)"
    using load_model_returns by blast
  have nd: "CallDecode t ids \<notin> set calls1"
    using l by (rule load_model_no_decode)
  have gm: "model (fst (generate_answer env s image_arg prompt kwargs)) = model s1"
    using l by (rule generate_answer_model)
  have "model s1 \<noteq> None"
  proof
    assume "model s1 = None"
    then have "model s1 = None \<or> tokenizer s1 = None" by simp
    from generate_answer_not_loaded [OF l this]
    have "fst (snd (generate_answer env s image_arg prompt kwargs)) = calls1" by simp
    with assms nd show False by simp
  qed
  with gm l show ?thesis by simp
qed

text \<open>Scenario 6 of the spec, on a new node: decoding is reached, the model stays.\<close>

theorem generate_answer_keeps_model_witness:
  "CallDecode (TokenizerRef 1) [7, 8, 9]
     \<in> set (fst (snd (generate_answer env_ok (init False) (PyTensor image_rgb)
                        (PyStr ''Describe the image.'') kwargs_no_cache)))
   \<and> model (fst (generate_answer env_ok (init False) (PyTensor image_rgb)
                  (PyStr ''Describe the image.'') kwargs_no_cache)) \<noteq> None"
proof -
  have d: "CallDecode (TokenizerRef 1) [7, 8, 9]
     \<in> set (fst (snd (generate_answer env_ok (init False) (PyTensor image_rgb)
                        (PyStr ''Describe the image.'') kwargs_no_cache)))"
    by code_simp
  from generate_answer_keeps_model [OF d] d show ?thesis by blast
qed


text \<open>
  Scenario 6 on a new node, with the default label and with a quantized one. The answer
  is the message of line 219 and not the description, decoding is the last call and
  \<^verbatim>\<open>unload_model\<close> is not called, the model is present after the call, and the flag
  \<open>quantized\<close> that the quantized load has set is not reset.
\<close>

theorem generate_answer_release_counterexample:
  "snd (snd (generate_answer env_ok (init False) (PyTensor image_rgb)
               (PyStr ''Describe the image.'') kwargs_no_cache))
     = Inr (''An unexpected error occurred: '' @ [CHR 0x27]
            @ ''DolphinVisionNode' object has no attribute 'cache'' @ [CHR 0x27])
   \<and> last (fst (snd (generate_answer env_ok (init False) (PyTensor image_rgb)
               (PyStr ''Describe the image.'') kwargs_no_cache)))
     = CallDecode (TokenizerRef 1) [7, 8, 9]
   \<and> CallUnloadModel (ModelRef 1)
       \<notin> set (fst (snd (generate_answer env_ok (init False) (PyTensor image_rgb)
                          (PyStr ''Describe the image.'') kwargs_no_cache)))
   \<and> model (fst (generate_answer env_ok (init False) (PyTensor image_rgb)
                  (PyStr ''Describe the image.'') kwargs_no_cache)) = Some (ModelRef 1)
   \<and> quantized (fst (generate_answer env_ok (init False) (PyTensor image_rgb)
                  (PyStr ''Describe the image.'') kwargs_nf4)) = True
   \<and> model (fst (generate_answer env_ok (init False) (PyTensor image_rgb)
                  (PyStr ''Describe the image.'') kwargs_nf4)) = Some (ModelRef 2)"
  by code_simp

section \<open>\<^verbatim>\<open>IS_CHANGED\<close>\<close>

text \<open>
  Claim C6, at a tensor image and a prompt text. The fingerprint is 0 when the image or
  the prompt is \<^verbatim>\<open>None\<close>. For a tensor and a text, line 238 calls \<^verbatim>\<open>image.tobytes()\<close>,
  which a tensor does not have: the method raises \<^verbatim>\<open>AttributeError\<close> and returns no hash.
\<close>

theorem is_changed_tensor_raises:
  "IS_CHANGED py_hash PyNone prompt = Inr 0
   \<and> IS_CHANGED py_hash image_arg PyNone = Inr 0
   \<and> IS_CHANGED py_hash (PyTensor image_rgb) (PyStr ''Describe the image.'') =
       Inl (Exn AttributeError
             ([CHR 0x27] @ ''Tensor' object has no attribute 'tobytes'' @ [CHR 0x27]))"
  by (simp add: IS_CHANGED_def tobytes_def)


section \<open>A failed load is not reported\<close>

text \<open>
  Claim C7, at two failed loads. No exception leaves \<open>generate_answer\<close>
  (\<open>generate_answer_returns\<close>), but a failure that \<open>load_model\<close> reports is dropped at
  line 153. On a new node whose \<^verbatim>\<open>self.model.eval()\<close> raises, and in a second call with an
  unrecognized label on the node a first call has left, the call goes on through
  generation and decoding, and the answer is not the message of the failed load.
\<close>

theorem generate_answer_drops_load_failure:
  "snd (snd (load_model env_eval_fails (init False) (PyStr bf16_label) (PyBool False)))
     = Inr (Some ''An unexpected error occurred while loading the model: eval failed'')
   \<and> CallDecode (TokenizerRef 1) [7, 8, 9]
       \<in> set (fst (snd (generate_answer env_eval_fails (init False) (PyTensor image_rgb)
                          (PyStr ''Describe the image.'') kwargs_no_cache)))
   \<and> snd (snd (generate_answer env_eval_fails (init False) (PyTensor image_rgb)
                  (PyStr ''Describe the image.'') kwargs_no_cache))
     = Inr (''An unexpected error occurred: '' @ [CHR 0x27]
            @ ''DolphinVisionNode' object has no attribute 'cache'' @ [CHR 0x27])
   \<and> CallDecode (TokenizerRef 1) [7, 8, 9]
       \<in> set (fst (snd (generate_answer env_ok
                          (fst (generate_answer env_ok (init False) (PyTensor image_rgb)
                                  (PyStr ''Describe the image.'') kwargs_no_cache))
                          (PyTensor image_rgb) (PyStr ''Describe the image.'') kwargs_unsupported)))
   \<and> snd (snd (generate_answer env_ok
                  (fst (generate_answer env_ok (init False) (PyTensor image_rgb)
                          (PyStr ''Describe the image.'') kwargs_no_cache))
                  (PyTensor image_rgb) (PyStr ''Describe the image.'') kwargs_unsupported))
     = Inr (''An unexpected error occurred: '' @ [CHR 0x27]
            @ ''DolphinVisionNode' object has no attribute 'cache'' @ [CHR 0x27])"
  by code_simp


section \<open>\<^verbatim>\<open>unload\<close>\<close>

text \<open>
  Claim C10, as the code has it. Without a model \<open>unload\<close> returns normally, calls
  nothing and leaves the node as it is. With a model it hands it to the backend's
  \<^verbatim>\<open>unload_model\<close>, raises what that raises, and leaves the node as it is: the model
  reference stays. A second call does what the first did, so it hands the same model to
  the backend again.
\<close>

theorem unload_keeps_reference:
  "(model s = None \<longrightarrow> unload env s = (s, [], Inr ()))
   \<and> (model s = Some m \<longrightarrow>
        fst (unload env s) = s
        \<and> model (fst (unload env s)) = Some m
        \<and> fst (snd (unload env s)) = [CallUnloadModel m]
        \<and> snd (snd (unload env s)) = (case unload_model env m of Some e \<Rightarrow> Inl e | None \<Rightarrow> Inr ())
        \<and> unload env (fst (unload env s)) = unload env s
        \<and> fst (snd (unload env (fst (unload env s)))) = [CallUnloadModel m])"
  by (simp add: unload_def)


theorem unload_keeps_reference_witness:
  "unload env_ok (init False) = (init False, [], Inr ())
   \<and> fst (unload env_ok (fst (load_model env_ok (init False) (PyStr bf16_label) (PyBool False))))
       = fst (load_model env_ok (init False) (PyStr bf16_label) (PyBool False))
   \<and> model (fst (unload env_ok (fst (load_model env_ok (init False) (PyStr bf16_label) (PyBool False)))))
       = Some (ModelRef 1)
   \<and> unload env_ok (fst (load_model env_ok (init False) (PyStr bf16_label) (PyBool False)))
       = (node_loaded, [CallUnloadModel (ModelRef 1)], Inr ())
   \<and> fst (snd (unload env_ok (fst (unload env_ok
         (fst (load_model env_ok (init False) (PyStr bf16_label) (PyBool False)))))))
       = [CallUnloadModel (ModelRef 1)]"
proof -
  have ld: "fst (load_model env_ok (init False) (PyStr bf16_label) (PyBool False)) = node_loaded"
    by code_simp
  have m0: "model (init False) = None"
    by (simp add: init_def)
  have m1: "model node_loaded = Some (ModelRef 1)"
    by (simp add: node_loaded_def)
  have u: "unload_model env_ok (ModelRef 1) = None"
    by (simp add: env_ok_def)
  from unload_keeps_reference [where s = "init False" and env = env_ok] m0
    unload_keeps_reference [where s = node_loaded and env = env_ok and m = "ModelRef 1"] m1 u
  show ?thesis
    unfolding ld by (simp add: prod_eq_iff)
qed


text \<open>
  On the node a load has left: the model reference is present after \<open>unload\<close>, and the
  second \<open>unload\<close> calls the backend again, where a call on a node without a model calls
  nothing.
\<close>

theorem unload_counterexample:
  "model (fst (unload env_ok (fst (load_model env_ok (init False) (PyStr bf16_label) (PyBool False)))))
     \<noteq> None
   \<and> fst (snd (unload env_ok (fst (unload env_ok
         (fst (load_model env_ok (init False) (PyStr bf16_label) (PyBool False)))))))
     = [CallUnloadModel (ModelRef 1)]
   \<and> fst (snd (unload env_ok (init False))) = []"
  by code_simp


end
